theory Spec2Isabelle
  imports Complex_Main
begin

section \<open>Green Book cost-benefit tools (\<^verbatim>\<open>src/src/cba_tools.py\<close>)\<close>

text \<open>
  The module is five pure functions over numbers and short sequences. Python's \<^verbatim>\<open>int\<close>
  is modelled as \<^typ>\<open>int\<close>, \<^verbatim>\<open>str\<close> as \<^typ>\<open>string\<close>, a list as a HOL list, and an
  optional argument whose default is \<^verbatim>\<open>None\<close> as an \<^typ>\<open>'a option\<close>.
  Python's \<^verbatim>\<open>float\<close> is modelled as \<^typ>\<open>real\<close>: every statement below is about the
  exact arithmetic the code writes down, not about IEEE rounding, overflow or underflow.
\<close>

subsection \<open>Errors\<close>

text \<open>
  Every failure of the module is a \<^verbatim>\<open>raise ValueError(msg)\<close>; the three raise sites
  differ in their message only. The model keeps the message, and names the three
  errors by the text they carry.
\<close>

datatype error = ValueError string

fun join :: "string \<Rightarrow> string list \<Rightarrow> string" where
  "join sep [] = []"
| "join sep [x] = x"
| "join sep (x # y # ys) = x @ sep @ join sep (y # ys)"

definition repr_str :: "string \<Rightarrow> string" where
  \<comment> \<open>\<^verbatim>\<open>repr\<close> of a string without quotes or escapes: the string in single quotes\<close>
  "repr_str s = [CHR 0x27] @ s @ [CHR 0x27]"

definition repr_list :: "string list \<Rightarrow> string" where
  \<comment> \<open>what an f-string prints for a list of strings\<close>
  "repr_list xs = ''['' @ join '', '' (map repr_str xs) @ '']''"

definition LengthMismatchError :: error where
  "LengthMismatchError = ValueError ''cash_flows and years must have same length''"

definition ZeroDenominatorError :: error where
  "ZeroDenominatorError = ValueError ''Total discounted costs cannot be zero''"

definition UnknownCategoryError :: "string list \<Rightarrow> error" where
  "UnknownCategoryError valid =
     ValueError (''Unknown project type. Choose from: '' @ repr_list valid)"

subsection \<open>The rate table\<close>

record standard_bands =
  years_0_30 :: real
  years_31_75 :: real
  years_76_125 :: real
  years_126_200 :: real
  years_201_300 :: real
  years_301_plus :: real

record green_book_rates =
  standard :: standard_bands
  health :: real
  reduced :: real

definition GREEN_BOOK_RATES :: green_book_rates where
  "GREEN_BOOK_RATES =
     \<lparr> standard =
         \<lparr> years_0_30 = 0.035,
           years_31_75 = 0.030,
           years_76_125 = 0.025,
           years_126_200 = 0.020,
           years_201_300 = 0.015,
           years_301_plus = 0.010 \<rparr>,
       health = 0.015,
       reduced = 0.030 \<rparr>"

subsection \<open>Discount rate and discount factor\<close>

definition get_discount_rate :: "int \<Rightarrow> string \<Rightarrow> real" where
  "get_discount_rate year rate_type =
     (if rate_type = ''health'' then health GREEN_BOOK_RATES
      else if rate_type = ''reduced'' then reduced GREEN_BOOK_RATES
      else if year \<le> 30 then years_0_30 (standard GREEN_BOOK_RATES)
      else if year \<le> 75 then years_31_75 (standard GREEN_BOOK_RATES)
      else if year \<le> 125 then years_76_125 (standard GREEN_BOOK_RATES)
      else if year \<le> 200 then years_126_200 (standard GREEN_BOOK_RATES)
      else if year \<le> 300 then years_201_300 (standard GREEN_BOOK_RATES)
      else years_301_plus (standard GREEN_BOOK_RATES))"

definition range_py :: "int \<Rightarrow> int \<Rightarrow> int list" where
  \<comment> \<open>\<^verbatim>\<open>range(a, b)\<close>: the integers from \<open>a\<close> up to \<open>b - 1\<close>, none when \<open>b \<le> a\<close>\<close>
  "range_py a b = [a..b - 1]"

definition compound :: "string \<Rightarrow> real \<Rightarrow> int \<Rightarrow> real" where
  \<comment> \<open>one pass through the body of the loop\<close>
  "compound rate_type discount_factor y =
     (let rate = get_discount_rate y rate_type in discount_factor / (1 + rate))"

definition calculate_discount_factor :: "int \<Rightarrow> string \<Rightarrow> real" where
  "calculate_discount_factor year rate_type =
     (if year = 0 then 1
      else foldl (compound rate_type) 1 (range_py 1 (year + 1)))"

subsection \<open>Net present value and benefit-cost ratio\<close>

definition calculate_npv_greenbook :: "real list \<Rightarrow> int list option \<Rightarrow> string \<Rightarrow> error + real" where
  "calculate_npv_greenbook cash_flows years rate_type =
     (let years' = (case years of
                      None \<Rightarrow> map int [0..<length cash_flows]
                    | Some ys \<Rightarrow> ys)
      in if length cash_flows \<noteq> length years' then Inl LengthMismatchError
         else Inr (foldl (\<lambda>npv (cf, year).
                            npv + cf * calculate_discount_factor year rate_type)
                         0 (zip cash_flows years')))"

definition py_sum :: "real list \<Rightarrow> real" where
  \<comment> \<open>the builtin \<^verbatim>\<open>sum\<close>: a left fold of \<open>+\<close> from 0\<close>
  "py_sum xs = foldl (+) 0 xs"

definition calculate_bcr :: "real list \<Rightarrow> real list \<Rightarrow> int list option \<Rightarrow> string \<Rightarrow> error + real" where
  "calculate_bcr costs benefits years rate_type =
     (let years' = (case years of
                      None \<Rightarrow> map int [0..<length costs]
                    | Some ys \<Rightarrow> ys);
          pv_costs = py_sum (map (\<lambda>(c, y). c * calculate_discount_factor y rate_type)
                                 (zip costs years'));
          pv_benefits = py_sum (map (\<lambda>(b, y). b * calculate_discount_factor y rate_type)
                                    (zip benefits years'))
      in if pv_costs = 0 then Inl ZeroDenominatorError
         else Inr (pv_benefits / pv_costs))"

subsection \<open>Optimism bias\<close>

definition bias_factors :: "(string \<times> real) list" where
  \<comment> \<open>the dictionary literal, in insertion order\<close>
  "bias_factors =
     [(''standard_building'', 0.24),
      (''non_standard_building'', 0.51),
      (''standard_civil_engineering'', 0.44),
      (''non_standard_civil_engineering'', 0.66),
      (''equipment_development'', 0.54),
      (''outsourcing'', 0.41)]"

definition apply_optimism_bias :: "real \<Rightarrow> string \<Rightarrow> error + real" where
  "apply_optimism_bias cost_estimate project_type =
     (case map_of bias_factors project_type of
        None \<Rightarrow> Inl (UnknownCategoryError (map fst bias_factors))
      | Some uplift \<Rightarrow> Inr (cost_estimate * (1 + uplift)))"

subsection \<open>How the claims read the code\<close>

definition years_or_default :: "'a list \<Rightarrow> int list option \<Rightarrow> int list" where
  \<comment> \<open>the years a call uses: those given, or 0, 1, 2, ... by position\<close>
  "years_or_default xs years =
     (case years of None \<Rightarrow> map int [0..<length xs] | Some ys \<Rightarrow> ys)"

definition discounted_total :: "real list \<Rightarrow> int list \<Rightarrow> string \<Rightarrow> real" where
  \<comment> \<open>the sum of \<open>amounts[i] \<times> factor(years[i])\<close> over the positions both sequences have\<close>
  "discounted_total amounts ys rate_type =
     (\<Sum>i<min (length amounts) (length ys).
        amounts ! i * calculate_discount_factor (ys ! i) rate_type)"

section \<open>Properties\<close>

subsection \<open>The rate lookup\<close>

lemma rate_pos: "0 < get_discount_rate y rt"
  by (simp add: get_discount_rate_def GREEN_BOOK_RATES_def)

text \<open>
  C2. The health rate is 0.015 and the reduced rate 0.030 whatever the year; the
  standard rate is that of the band holding the year, the bands ending at 30, 75, 125,
  200 and 300 inclusive, with 0.010 beyond 300. The six boundary values of the spec
  follow. (The code puts no lower bound on the year: the statement holds for every
  integer, so in particular for every year from 0 on.)
\<close>

theorem get_discount_rate_table:
  "get_discount_rate year ''health'' = 0.015 \<and>
   get_discount_rate year ''reduced'' = 0.030 \<and>
   (year \<le> 30 \<longrightarrow> get_discount_rate year ''standard'' = 0.035) \<and>
   (30 < year \<and> year \<le> 75 \<longrightarrow> get_discount_rate year ''standard'' = 0.030) \<and>
   (75 < year \<and> year \<le> 125 \<longrightarrow> get_discount_rate year ''standard'' = 0.025) \<and>
   (125 < year \<and> year \<le> 200 \<longrightarrow> get_discount_rate year ''standard'' = 0.020) \<and>
   (200 < year \<and> year \<le> 300 \<longrightarrow> get_discount_rate year ''standard'' = 0.015) \<and>
   (300 < year \<longrightarrow> get_discount_rate year ''standard'' = 0.010) \<and>
   get_discount_rate 30 ''standard'' = 0.035 \<and>
   get_discount_rate 31 ''standard'' = 0.030 \<and>
   get_discount_rate 125 ''standard'' = 0.025 \<and>
   get_discount_rate 126 ''standard'' = 0.020 \<and>
   get_discount_rate 300 ''standard'' = 0.015 \<and>
   get_discount_rate 301 ''standard'' = 0.010"
  by (simp add: get_discount_rate_def GREEN_BOOK_RATES_def)

theorem get_discount_rate_table_witness:
  "(100::int) \<le> 125 \<and> (75::int) < 100 \<and> get_discount_rate 100 ''standard'' = 0.025"
  using get_discount_rate_table [of 100] by simp

text \<open>
  C7. A rate type that is neither \<^verbatim>\<open>'health'\<close> nor \<^verbatim>\<open>'reduced'\<close> is read as
  \<^verbatim>\<open>'standard'\<close>: the lookup has no error branch.
\<close>

theorem get_discount_rate_fallthrough:
  "rate_type \<noteq> ''health'' \<Longrightarrow> rate_type \<noteq> ''reduced'' \<Longrightarrow>
   get_discount_rate year rate_type = get_discount_rate year ''standard''"
  by (simp add: get_discount_rate_def)

theorem get_discount_rate_fallthrough_witness:
  "''green'' \<noteq> ''health'' \<and> ''green'' \<noteq> ''reduced'' \<and>
   get_discount_rate 40 ''green'' = get_discount_rate 40 ''standard''"
  using get_discount_rate_fallthrough [of "''green''" 40] by simp

subsection \<open>The discount factor\<close>

text \<open>
  The guard for year 0 and the loop agree: for every year the factor is the loop run
  over the years 1 to \<open>year\<close>, which are none when \<open>year < 1\<close>.
\<close>

lemma cdf_foldl: "calculate_discount_factor year rt = foldl (compound rt) 1 [1..year]"
  by (simp add: calculate_discount_factor_def range_py_def)

lemma compound_eq: "compound rt df y = df * (1 / (1 + get_discount_rate y rt))"
  by (simp add: compound_def)

lemma loop_prod_list:
  "foldl (compound rt) a ys = a * prod_list (map (\<lambda>y. 1 / (1 + get_discount_rate y rt)) ys)"
  by (induction ys arbitrary: a) (simp_all add: compound_eq)

lemma loop_bounds:
  "0 < a \<Longrightarrow> 0 < foldl (compound rt) a ys \<and> foldl (compound rt) a ys \<le> a"
proof (induction ys arbitrary: a)
  case Nil
  then show ?case by simp
next
  case (Cons y ys)
  have r: "0 < get_discount_rate y rt" by (rule rate_pos)
  have p: "0 < compound rt a y" using Cons.prems r by (simp add: compound_def)
  have l: "compound rt a y \<le> a" using Cons.prems r
    by (simp add: compound_def divide_le_eq)
  from Cons.IH [OF p] l show ?case by simp
qed

lemma cdf_bounds:
  "0 < calculate_discount_factor y rt \<and> calculate_discount_factor y rt \<le> 1"
  using loop_bounds [of 1 rt] by (simp add: cdf_foldl)

lemma cdf_split:
  assumes "0 \<le> y1" "y1 \<le> y2"
  shows "calculate_discount_factor y2 rt =
         foldl (compound rt) (calculate_discount_factor y1 rt) [y1 + 1..y2]"
proof -
  have "[1..y2] = [1..y1] @ [y1 + 1..y2]"
  proof (cases "y1 = 0")
    case True
    then show ?thesis by simp
  next
    case False
    with assms have "1 \<le> y1" by simp
    from upto_split2 [OF this assms(2)] show ?thesis .
  qed
  then show ?thesis by (simp add: cdf_foldl)
qed

text \<open>
  C1. At year 0 the factor is 1, and at a year above 0 it is the product, over the
  years \<open>y\<close> from 1 to \<open>year\<close>, of \<open>1 / (1 + rate y)\<close>: the loop starts at 1 and
  divides by \<open>1 + rate y\<close> once for each of these years.
\<close>

theorem calculate_discount_factor_product:
  "calculate_discount_factor 0 rate_type = 1 \<and>
   (0 < year \<longrightarrow>
      calculate_discount_factor year rate_type =
        (\<Prod>y = 1..year. 1 / (1 + get_discount_rate y rate_type)))"
proof -
  have "prod_list (map (\<lambda>y. 1 / (1 + get_discount_rate y rate_type)) [1..year]) =
        (\<Prod>y = 1..year. 1 / (1 + get_discount_rate y rate_type))"
    using prod.distinct_set_conv_list
            [of "[1..year]" "\<lambda>y. 1 / (1 + get_discount_rate y rate_type)"]
    by simp
  then show ?thesis
    by (simp add: cdf_foldl loop_prod_list)
qed

theorem calculate_discount_factor_product_witness:
  "(0::int) < 2 \<and>
   calculate_discount_factor 2 ''standard'' =
     (\<Prod>y = 1..2. 1 / (1 + get_discount_rate y ''standard'')) \<and>
   calculate_discount_factor 2 ''standard'' = 1 / 1.035 / 1.035"
  using calculate_discount_factor_product [of "''standard''" 2]
  by (simp add: get_discount_rate_def GREEN_BOOK_RATES_def power2_eq_square)

text \<open>
  C8. For a fixed rate type the factor does not grow with the year, from year 0 on,
  and it is always above 0 and at most 1.
\<close>

theorem calculate_discount_factor_monotone:
  "(0 \<le> y1 \<and> y1 \<le> y2 \<longrightarrow>
      calculate_discount_factor y2 rate_type \<le> calculate_discount_factor y1 rate_type) \<and>
   0 < calculate_discount_factor year rate_type \<and>
   calculate_discount_factor year rate_type \<le> 1"
proof -
  have "calculate_discount_factor y2 rate_type \<le> calculate_discount_factor y1 rate_type"
    if "0 \<le> y1" "y1 \<le> y2"
    using cdf_split [OF that, of rate_type] cdf_bounds [of y1 rate_type]
      loop_bounds [of "calculate_discount_factor y1 rate_type" rate_type "[y1 + 1..y2]"]
    by simp
  with cdf_bounds [of year rate_type] show ?thesis by blast
qed

theorem calculate_discount_factor_monotone_witness:
  "(0::int) \<le> 30 \<and> (30::int) \<le> 31 \<and>
   calculate_discount_factor 31 ''health'' \<le> calculate_discount_factor 30 ''health'' \<and>
   0 < calculate_discount_factor 31 ''health''"
  using calculate_discount_factor_monotone [of 30 31 "''health''" 31] by simp

text \<open>
  C10. A negative year gives the factor 1: the range from 1 to \<open>year\<close> is empty, the
  loop body never runs, and the year is not rejected.
\<close>

theorem calculate_discount_factor_negative:
  "year < 0 \<Longrightarrow> calculate_discount_factor year rate_type = 1"
  by (simp add: calculate_discount_factor_def range_py_def)

theorem calculate_discount_factor_negative_witness:
  "(- 3::int) < 0 \<and> calculate_discount_factor (- 3) ''reduced'' = 1"
  using calculate_discount_factor_negative [of "- 3" "''reduced''"] by simp

subsection \<open>Sums over paired sequences\<close>

text \<open>
  \<^verbatim>\<open>zip\<close> stops at the shorter sequence, so each discounted total runs over the
  positions that both the amounts and the years have.
\<close>

lemma py_sum_sum_list: "py_sum xs = sum_list xs"
proof -
  have "foldl (+) a xs = a + sum_list xs" for a :: real
    by (induction xs arbitrary: a) simp_all
  then show ?thesis by (simp add: py_sum_def)
qed

lemma npv_loop_sum_list:
  "foldl (\<lambda>npv (cf, year). npv + cf * calculate_discount_factor year rt) a ps =
   a + sum_list (map (\<lambda>(cf, year). cf * calculate_discount_factor year rt) ps)"
  by (induction ps arbitrary: a) (simp_all split: prod.splits)

lemma sum_list_zip_total:
  "sum_list (map (\<lambda>(c, y). c * calculate_discount_factor y rt) (zip xs ys)) =
   discounted_total xs ys rt"
  unfolding discounted_total_def
  by (simp add: sum_list_sum_nth atLeast0LessThan)

lemma discounted_total_nonneg:
  assumes "\<forall>c\<in>set xs. 0 \<le> c"
  shows "0 \<le> discounted_total xs ys rt"
  unfolding discounted_total_def
proof (rule sum_nonneg)
  fix i assume "i \<in> {..<min (length xs) (length ys)}"
  then have "xs ! i \<in> set xs" by simp
  with assms have "0 \<le> xs ! i" by blast
  moreover have "0 < calculate_discount_factor (ys ! i) rt" using cdf_bounds by blast
  ultimately show "0 \<le> xs ! i * calculate_discount_factor (ys ! i) rt" by simp
qed

lemma discounted_total_zero:
  assumes "\<forall>c\<in>set xs. c = 0"
  shows "discounted_total xs ys rt = 0"
  unfolding discounted_total_def
proof (rule sum.neutral, rule ballI)
  fix i assume "i \<in> {..<min (length xs) (length ys)}"
  then have "xs ! i \<in> set xs" by simp
  with assms show "xs ! i * calculate_discount_factor (ys ! i) rt = 0" by simp
qed

lemma calculate_bcr_eq:
  "calculate_bcr costs benefits years rt =
     (if discounted_total costs (years_or_default costs years) rt = 0
      then Inl ZeroDenominatorError
      else Inr (discounted_total benefits (years_or_default costs years) rt /
                discounted_total costs (years_or_default costs years) rt))"
  by (simp add: calculate_bcr_def years_or_default_def py_sum_sum_list sum_list_zip_total
           Let_def)

subsection \<open>Net present value\<close>

text \<open>
  C3. The net present value is the sum, over every position \<open>i\<close>, of
  \<open>cash_flows[i]\<close> times the discount factor of \<open>years[i]\<close>. Without \<open>years\<close> the
  call is the one with the years 0, 1, 2, ... by position.
\<close>

theorem calculate_npv_greenbook_sum:
  "calculate_npv_greenbook cash_flows None rate_type =
     Inr (\<Sum>i<length cash_flows.
            cash_flows ! i * calculate_discount_factor (int i) rate_type) \<and>
   calculate_npv_greenbook cash_flows None rate_type =
     calculate_npv_greenbook cash_flows (Some (map int [0..<length cash_flows])) rate_type \<and>
   (length ys = length cash_flows \<longrightarrow>
      calculate_npv_greenbook cash_flows (Some ys) rate_type =
        Inr (\<Sum>i<length cash_flows.
               cash_flows ! i * calculate_discount_factor (ys ! i) rate_type))"
  by (simp add: calculate_npv_greenbook_def npv_loop_sum_list sum_list_zip_total
        discounted_total_def)

theorem calculate_npv_greenbook_sum_witness:
  "length [0, 2::int] = length [10, 20::real] \<and>
   calculate_npv_greenbook [10, 20] (Some [0, 2]) ''health'' =
     Inr (\<Sum>i<length [10, 20::real].
            [10, 20] ! i * calculate_discount_factor ([0, 2] ! i) ''health'')"
  using calculate_npv_greenbook_sum [of "[10, 20]" "''health''" "[0, 2]"] by simp

text \<open>
  When the years are given and their number differs from that of the cash flows, the
  call fails before the loop starts.
\<close>

lemma calculate_npv_greenbook_length_mismatch:
  "length ys \<noteq> length cash_flows \<Longrightarrow>
   calculate_npv_greenbook cash_flows (Some ys) rt = Inl LengthMismatchError"
  by (auto simp add: calculate_npv_greenbook_def)

subsection \<open>Benefit-cost ratio\<close>

text \<open>
  C4. The ratio fails with the zero-denominator error exactly when the discounted
  cost total is zero, which it is whenever every cost is zero; otherwise the result
  is the discounted benefit total divided by the discounted cost total, as it is.
\<close>

theorem calculate_bcr_zero_denominator:
  "calculate_bcr costs benefits years rate_type =
     (if discounted_total costs (years_or_default costs years) rate_type = 0
      then Inl ZeroDenominatorError
      else Inr (discounted_total benefits (years_or_default costs years) rate_type /
                discounted_total costs (years_or_default costs years) rate_type)) \<and>
   (isl (calculate_bcr costs benefits years rate_type) \<longleftrightarrow>
      discounted_total costs (years_or_default costs years) rate_type = 0) \<and>
   ((\<forall>c\<in>set costs. c = 0) \<longrightarrow>
      calculate_bcr costs benefits years rate_type = Inl ZeroDenominatorError)"
  using discounted_total_zero [of costs "years_or_default costs years" rate_type]
  by (simp add: calculate_bcr_eq)

theorem calculate_bcr_zero_denominator_witness:
  "list_all (\<lambda>c. c = 0) [0, 0::real] \<and>
   calculate_bcr [0, 0] [5, 7] None ''standard'' = Inl ZeroDenominatorError"
  using calculate_bcr_zero_denominator
          [of "[0, 0]" "[5, 7]" None "''standard''", THEN conjunct2, THEN conjunct2]
  by simp

text \<open>
  C9, as the spec states it: with costs and benefits that are not negative, a ratio
  that is returned is above 0. It is not: one unit of cost and no benefit give the
  ratio 0.
\<close>

theorem calculate_bcr_zero_benefits:
  "calculate_bcr [1] [0] None ''standard'' = Inr 0 \<and> \<not> (0::real) < 0"
  by (simp add: calculate_bcr_def py_sum_def calculate_discount_factor_def)

text \<open>
  C9, amended: with costs and benefits that are not negative, a ratio that is
  returned is not negative, and it is 0 exactly when the discounted benefit total is.
\<close>

theorem calculate_bcr_nonneg:
  assumes "\<forall>c\<in>set costs. 0 \<le> c" and "\<forall>b\<in>set benefits. 0 \<le> b"
    and "calculate_bcr costs benefits years rate_type = Inr r"
  shows "0 \<le> r \<and>
         (r = 0 \<longleftrightarrow> discounted_total benefits (years_or_default costs years) rate_type = 0)"
proof -
  let ?ys = "years_or_default costs years"
  from assms(3) have nz: "discounted_total costs ?ys rate_type \<noteq> 0"
    and r: "r = discounted_total benefits ?ys rate_type / discounted_total costs ?ys rate_type"
    by (auto simp add: calculate_bcr_eq split: if_splits)
  from nz discounted_total_nonneg [OF assms(1), of ?ys rate_type]
  have "0 < discounted_total costs ?ys rate_type" by simp
  with discounted_total_nonneg [OF assms(2), of ?ys rate_type] r nz
  show ?thesis by simp
qed

theorem calculate_bcr_nonneg_witness:
  "list_all (\<lambda>c. 0 \<le> c) [2::real] \<and> list_all (\<lambda>b. 0 \<le> b) [1::real] \<and>
   calculate_bcr [2] [1] None ''standard'' = Inr (1 / 2) \<and> (0::real) \<le> 1 / 2"
proof -
  have c: "\<forall>c\<in>set [2::real]. 0 \<le> c" and b: "\<forall>b\<in>set [1::real]. 0 \<le> b" by simp_all
  have e: "calculate_bcr [2] [1] None ''standard'' = Inr (1 / 2)"
    by (simp add: calculate_bcr_def py_sum_def calculate_discount_factor_def)
  from calculate_bcr_nonneg [OF c b e] c b e show ?thesis by simp
qed

text \<open>
  C6. The ratio never compares the lengths of its sequences. With one cost and two
  benefits the second benefit is dropped by \<^verbatim>\<open>zip\<close> and a ratio comes back, where the
  claim has the call fail with the length error that the net present value raises.
\<close>

theorem calculate_bcr_length_unchecked:
  "calculate_bcr [100] [50, 50] None ''standard'' = Inr (1 / 2) \<and>
   calculate_bcr [100] [50, 50] None ''standard'' \<noteq> Inl LengthMismatchError"
  by (simp add: calculate_bcr_def py_sum_def calculate_discount_factor_def)

subsection \<open>Optimism bias\<close>

text \<open>
  C5. For each of the six project types the estimate is multiplied by one plus the
  uplift of the type. The call fails exactly when the project type is none of the
  six, and the error then lists the six types.
\<close>

theorem apply_optimism_bias_table:
  "apply_optimism_bias c ''standard_building'' = Inr (c * (1 + 0.24)) \<and>
   apply_optimism_bias c ''non_standard_building'' = Inr (c * (1 + 0.51)) \<and>
   apply_optimism_bias c ''standard_civil_engineering'' = Inr (c * (1 + 0.44)) \<and>
   apply_optimism_bias c ''non_standard_civil_engineering'' = Inr (c * (1 + 0.66)) \<and>
   apply_optimism_bias c ''equipment_development'' = Inr (c * (1 + 0.54)) \<and>
   apply_optimism_bias c ''outsourcing'' = Inr (c * (1 + 0.41)) \<and>
   (isl (apply_optimism_bias c project_type) \<longleftrightarrow>
      project_type \<notin> set [''standard_building'', ''non_standard_building'',
        ''standard_civil_engineering'', ''non_standard_civil_engineering'',
        ''equipment_development'', ''outsourcing'']) \<and>
   (project_type \<notin> set [''standard_building'', ''non_standard_building'',
        ''standard_civil_engineering'', ''non_standard_civil_engineering'',
        ''equipment_development'', ''outsourcing''] \<longrightarrow>
      apply_optimism_bias c project_type =
        Inl (UnknownCategoryError [''standard_building'', ''non_standard_building'',
          ''standard_civil_engineering'', ''non_standard_civil_engineering'',
          ''equipment_development'', ''outsourcing''])) \<and>
   UnknownCategoryError [''standard_building'', ''non_standard_building'',
          ''standard_civil_engineering'', ''non_standard_civil_engineering'',
          ''equipment_development'', ''outsourcing''] =
     ValueError ''Unknown project type. Choose from: ['standard_building', 'non_standard_building', 'standard_civil_engineering', 'non_standard_civil_engineering', 'equipment_development', 'outsourcing']''"
  by (simp add: apply_optimism_bias_def bias_factors_def UnknownCategoryError_def
        repr_list_def repr_str_def)

theorem apply_optimism_bias_table_witness:
  "''railway'' \<notin> set [''standard_building'', ''non_standard_building'',
        ''standard_civil_engineering'', ''non_standard_civil_engineering'',
        ''equipment_development'', ''outsourcing''] \<and>
   isl (apply_optimism_bias 100 ''railway'') \<and>
   apply_optimism_bias 100 ''railway'' =
     Inl (UnknownCategoryError [''standard_building'', ''non_standard_building'',
          ''standard_civil_engineering'', ''non_standard_civil_engineering'',
          ''equipment_development'', ''outsourcing''])"
  using apply_optimism_bias_table [of 100 "''railway''"] by simp

end
